theory Spec2Isabelle
  imports Complex_Main
begin

section \<open>Python values used by the image server\<close>

text \<open>
  The server is Python. A \<open>str\<close> is modelled as a \<open>string\<close> whose characters are read
  as the code points 0..255; an \<open>int\<close> is an unbounded \<open>int\<close>; an exception is a value
  of \<open>py_error\<close>, and a function that may raise returns \<open>py_error + 'a\<close>.
  The interpreter's recursion limit and its limit on the number of digits that
  \<open>int()\<close> converts are resource limits of the interpreter and are not modelled.
\<close>

datatype py_error = ValueError | OverflowError | ZeroDivisionError | OSError | CvError

subsection \<open>String operations\<close>

definition startswith :: "string \<Rightarrow> string \<Rightarrow> bool" where
  "startswith s p = (take (length p) s = p)"

definition endswith :: "string \<Rightarrow> string \<Rightarrow> bool" where
  "endswith s p = (length p \<le> length s \<and> drop (length s - length p) s = p)"

text \<open>\<open>sub in s\<close>: \<open>sub\<close> occurs in \<open>s\<close> as a contiguous substring.\<close>

fun contains :: "string \<Rightarrow> string \<Rightarrow> bool" where
  "contains sub [] = (sub = [])"
| "contains sub (c # cs) = (startswith (c # cs) sub \<or> contains sub cs)"

text \<open>\<open>s.split(',')\<close>: the fields between commas; never the empty list.\<close>

fun split_comma :: "string \<Rightarrow> string list" where
  "split_comma [] = [[]]"
| "split_comma (c # cs) =
     (if c = CHR '','' then [] # split_comma cs
      else (case split_comma cs of
              [] \<Rightarrow> [[c]]
            | p # ps \<Rightarrow> (c # p) # ps))"

definition is_decimal :: "char \<Rightarrow> bool" where
  "is_decimal c = (48 \<le> (of_char c :: int) \<and> (of_char c :: int) \<le> 57)"

definition digit_val :: "char \<Rightarrow> int" where
  "digit_val c = (of_char c :: int) - 48"

text \<open>
  \<open>str.isdigit()\<close>: non-empty and every character has the Unicode property Digit; below
  256 these are the ten decimal digits and the superscripts two, three and one.
\<close>

definition is_digit_char :: "char \<Rightarrow> bool" where
  "is_digit_char c = (is_decimal c \<or> (of_char c :: int) \<in> {178, 179, 185})"

definition isdigit :: "string \<Rightarrow> bool" where
  "isdigit s = (s \<noteq> [] \<and> list_all is_digit_char s)"

text \<open>
  The white space that \<open>int()\<close> and \<open>float()\<close> skip at both ends of their argument:
  tab, line feed, vertical tab, form feed, carriage return, space, and the two
  characters above 127 that Unicode classifies as white space.
\<close>

definition is_num_space :: "char \<Rightarrow> bool" where
  "is_num_space c = ((of_char c :: int) \<in> {9, 10, 11, 12, 13, 32, 133, 160})"

definition strip_num :: "string \<Rightarrow> string" where
  "strip_num s = rev (dropWhile is_num_space (rev (dropWhile is_num_space s)))"

text \<open>An underscore in a numeric literal must stand between two decimal digits.\<close>

fun underscores_ok :: "char option \<Rightarrow> string \<Rightarrow> bool" where
  "underscores_ok prev [] = True"
| "underscores_ok prev (c # cs) =
     (if c = CHR ''_''
      then (case prev of None \<Rightarrow> False | Some p \<Rightarrow> is_decimal p)
           \<and> (case cs of [] \<Rightarrow> False | d # _ \<Rightarrow> is_decimal d)
           \<and> underscores_ok (Some c) cs
      else underscores_ok (Some c) cs)"

definition drop_underscores :: "string \<Rightarrow> string" where
  "drop_underscores s = filter (\<lambda>c. c \<noteq> CHR ''_'') s"

text \<open>The number a run of decimal digits denotes, most significant digit first.\<close>

definition digits_value :: "string \<Rightarrow> int" where
  "digits_value ds = foldl (\<lambda>acc c. 10 * acc + digit_val c) 0 ds"

text \<open>An optional sign in front of a literal: whether it is negative, and the rest.\<close>

definition take_sign :: "string \<Rightarrow> bool \<times> string" where
  "take_sign s =
     (case s of
        [] \<Rightarrow> (False, [])
      | c # cs \<Rightarrow>
          if c = CHR ''-'' then (True, cs)
          else if c = CHR ''+'' then (False, cs)
          else (False, s))"

text \<open>
  \<open>int(s)\<close> for a string: white space at both ends, an optional sign, at least one
  decimal digit, single underscores between digits; anything else is a ValueError.
\<close>

definition py_int :: "string \<Rightarrow> py_error + int" where
  "py_int s =
     (let (neg, body) = take_sign (strip_num s) in
      if body \<noteq> [] \<and> underscores_ok None body
         \<and> list_all is_decimal (drop_underscores body)
      then Inr (if neg then - digits_value (drop_underscores body)
                else digits_value (drop_underscores body))
      else Inl ValueError)"

subsection \<open>Raising and sequencing\<close>

text \<open>Statement sequencing: the first exception raised ends the computation.\<close>

definition py_bind :: "py_error + 'a \<Rightarrow> ('a \<Rightarrow> py_error + 'b) \<Rightarrow> py_error + 'b" where
  "py_bind m f = (case m of Inl e \<Rightarrow> Inl e | Inr v \<Rightarrow> f v)"

text \<open>\<open>map(f, xs)\<close> consumed from left to right: the first failing conversion raises.\<close>

fun map_err :: "('a \<Rightarrow> py_error + 'b) \<Rightarrow> 'a list \<Rightarrow> py_error + 'b list" where
  "map_err f [] = Inr []"
| "map_err f (x # xs) =
     py_bind (f x) (\<lambda>y. py_bind (map_err f xs) (\<lambda>ys. Inr (y # ys)))"

subsection \<open>Floating point\<close>

text \<open>
  A Python \<open>float\<close> is an IEEE 754 binary64 number: a finite value (kept as the rational
  it denotes), an infinity or a NaN. Every arithmetic result is rounded to the nearest
  representable value, ties to the even significand. The two zeros are one value here:
  no operation of the server tells them apart.
\<close>

datatype pyfloat = Finite rat | PosInf | NegInf | NaN

text \<open>The number of binary digits of a positive integer.\<close>

function bitlen :: "int \<Rightarrow> nat" where
  "bitlen n = (if n \<le> 0 then 0 else Suc (bitlen (n div 2)))"
  by pat_completeness auto
termination
  by (relation "measure nat") auto

declare bitlen.simps [simp del]

definition pow2 :: "int \<Rightarrow> rat" where
  "pow2 e = (if 0 \<le> e then 2 ^ nat e else 1 / 2 ^ nat (- e))"

definition pow10 :: "int \<Rightarrow> rat" where
  "pow10 e = (if 0 \<le> e then 10 ^ nat e else 1 / 10 ^ nat (- e))"

definition round_half_even :: "rat \<Rightarrow> int" where
  "round_half_even x =
     (let f = \<lfloor>x\<rfloor>; d = x - of_int f in
      if d < 1 / 2 then f
      else if 1 / 2 < d then f + 1
      else if even f then f else f + 1)"

text \<open>For \<open>a > 0\<close>, the integer \<open>e\<close> with \<open>2 ^ e \<le> a < 2 ^ (e + 1)\<close>.\<close>

definition binary_exponent :: "rat \<Rightarrow> int" where
  "binary_exponent a =
     (if 1 \<le> a then int (bitlen \<lfloor>a\<rfloor>) - 1
      else - int (bitlen (\<lceil>1 / a\<rceil> - 1)))"

text \<open>
  Rounding a rational to binary64: 53 significant bits, least exponent -1022 (below it
  the spacing stays \<open>2 ^ -1074\<close>), and a result whose exponent would exceed 1023, that
  is of magnitude \<open>2 ^ 1024\<close> or more, is an infinity.
\<close>

definition round_double :: "rat \<Rightarrow> pyfloat" where
  "round_double q =
     (if q = 0 then Finite 0
      else
        let a = \<bar>q\<bar>;
            e = max (binary_exponent a) (- 1022);
            ulp = pow2 (e - 52);
            m = round_half_even (a / ulp);
            r = of_int m * ulp
        in if 1023 < e \<or> (e = 1023 \<and> m = 2 ^ 53)
           then (if q < 0 then NegInf else PosInf)
           else Finite (if q < 0 then - r else r))"

text \<open>Conversion of an \<open>int\<close> operand to \<open>float\<close>; too large an \<open>int\<close> raises.\<close>

definition float_of_int :: "int \<Rightarrow> py_error + pyfloat" where
  "float_of_int i =
     (case round_double (of_int i) of
        Finite q \<Rightarrow> Inr (Finite q)
      | _ \<Rightarrow> Inl OverflowError)"

definition is_negative :: "pyfloat \<Rightarrow> bool" where
  "is_negative x = (case x of Finite q \<Rightarrow> q < 0 | NegInf \<Rightarrow> True | _ \<Rightarrow> False)"

definition signed_inf :: "bool \<Rightarrow> pyfloat" where
  "signed_inf neg = (if neg then NegInf else PosInf)"

definition float_mul :: "pyfloat \<Rightarrow> pyfloat \<Rightarrow> pyfloat" where
  "float_mul x y =
     (case (x, y) of
        (NaN, _) \<Rightarrow> NaN
      | (_, NaN) \<Rightarrow> NaN
      | (Finite a, Finite b) \<Rightarrow> round_double (a * b)
      | (Finite a, _) \<Rightarrow> if a = 0 then NaN else signed_inf (is_negative x \<noteq> is_negative y)
      | (_, Finite b) \<Rightarrow> if b = 0 then NaN else signed_inf (is_negative x \<noteq> is_negative y)
      | _ \<Rightarrow> signed_inf (is_negative x \<noteq> is_negative y))"

definition float_add :: "pyfloat \<Rightarrow> pyfloat \<Rightarrow> pyfloat" where
  "float_add x y =
     (case (x, y) of
        (NaN, _) \<Rightarrow> NaN
      | (_, NaN) \<Rightarrow> NaN
      | (Finite a, Finite b) \<Rightarrow> round_double (a + b)
      | (Finite a, _) \<Rightarrow> y
      | (_, Finite b) \<Rightarrow> x
      | _ \<Rightarrow> if x = y then x else NaN)"

definition float_neg :: "pyfloat \<Rightarrow> pyfloat" where
  "float_neg x =
     (case x of Finite q \<Rightarrow> Finite (- q) | PosInf \<Rightarrow> NegInf | NegInf \<Rightarrow> PosInf | NaN \<Rightarrow> NaN)"

definition float_sub :: "pyfloat \<Rightarrow> pyfloat \<Rightarrow> pyfloat" where
  "float_sub x y = float_add x (float_neg y)"

definition float_abs :: "pyfloat \<Rightarrow> pyfloat" where
  "float_abs x =
     (case x of Finite q \<Rightarrow> Finite \<bar>q\<bar> | PosInf \<Rightarrow> PosInf | NegInf \<Rightarrow> PosInf | NaN \<Rightarrow> NaN)"

text \<open>\<open>x / y\<close> on floats: a zero divisor raises, whatever the dividend.\<close>

definition float_div :: "pyfloat \<Rightarrow> pyfloat \<Rightarrow> py_error + pyfloat" where
  "float_div x y =
     (if y = Finite 0 then Inl ZeroDivisionError
      else Inr (case (x, y) of
                  (NaN, _) \<Rightarrow> NaN
                | (_, NaN) \<Rightarrow> NaN
                | (Finite a, Finite b) \<Rightarrow> round_double (a / b)
                | (Finite a, _) \<Rightarrow> Finite 0
                | (_, Finite b) \<Rightarrow> signed_inf (is_negative x \<noteq> is_negative y)
                | _ \<Rightarrow> NaN))"

text \<open>\<open>a / b\<close> on two \<open>int\<close>s: the correctly rounded quotient.\<close>

definition int_truediv :: "int \<Rightarrow> int \<Rightarrow> py_error + pyfloat" where
  "int_truediv a b =
     (if b = 0 then Inl ZeroDivisionError
      else (case round_double (of_int a / of_int b) of
              Finite q \<Rightarrow> Inr (Finite q)
            | _ \<Rightarrow> Inl OverflowError))"

text \<open>\<open>i * x\<close> and \<open>x / i\<close> with an \<open>int\<close> operand \<open>i\<close>, which is converted first.\<close>

definition int_mul_float :: "int \<Rightarrow> pyfloat \<Rightarrow> py_error + pyfloat" where
  "int_mul_float i x = py_bind (float_of_int i) (\<lambda>fi. Inr (float_mul fi x))"

definition float_div_int :: "pyfloat \<Rightarrow> int \<Rightarrow> py_error + pyfloat" where
  "float_div_int x i = py_bind (float_of_int i) (\<lambda>fi. float_div x fi)"

text \<open>\<open>int(x)\<close> on a float: truncation toward zero; NaN and the infinities raise.\<close>

definition trunc_rat :: "rat \<Rightarrow> int" where
  "trunc_rat q = (if 0 \<le> q then \<lfloor>q\<rfloor> else \<lceil>q\<rceil>)"

definition int_of_float :: "pyfloat \<Rightarrow> py_error + int" where
  "int_of_float x =
     (case x of
        Finite q \<Rightarrow> Inr (trunc_rat q)
      | NaN \<Rightarrow> Inl ValueError
      | _ \<Rightarrow> Inl OverflowError)"

text \<open>\<open>x < y\<close> on floats, and \<open>min(x, y)\<close>, which keeps \<open>x\<close> unless \<open>y < x\<close>.\<close>

definition float_less :: "pyfloat \<Rightarrow> pyfloat \<Rightarrow> bool" where
  "float_less x y =
     (case (x, y) of
        (NaN, _) \<Rightarrow> False
      | (_, NaN) \<Rightarrow> False
      | (Finite a, Finite b) \<Rightarrow> a < b
      | (NegInf, NegInf) \<Rightarrow> False
      | (NegInf, _) \<Rightarrow> True
      | (_, PosInf) \<Rightarrow> y \<noteq> x
      | _ \<Rightarrow> False)"

definition float_min :: "pyfloat \<Rightarrow> pyfloat \<Rightarrow> pyfloat" where
  "float_min x y = (if float_less y x then y else x)"

text \<open>\<open>x == i\<close> for a float and an \<open>int\<close>: exact comparison of the two numbers.\<close>

definition float_eq_int :: "pyfloat \<Rightarrow> int \<Rightarrow> bool" where
  "float_eq_int x i = (x = Finite (of_int i))"

text \<open>
  \<open>x % y\<close> on floats: the exact remainder of the truncated quotient, moved by \<open>y\<close> when
  its sign differs from the sign of \<open>y\<close>.
\<close>

definition float_mod :: "pyfloat \<Rightarrow> pyfloat \<Rightarrow> py_error + pyfloat" where
  "float_mod x y =
     (if y = Finite 0 then Inl ZeroDivisionError
      else Inr (case (x, y) of
                  (NaN, _) \<Rightarrow> NaN
                | (_, NaN) \<Rightarrow> NaN
                | (Finite a, Finite b) \<Rightarrow>
                    (let m = a - b * of_int (trunc_rat (a / b)) in
                     if m \<noteq> 0 \<and> ((b < 0) \<noteq> (m < 0)) then round_double (m + b)
                     else Finite m)
                | (Finite a, _) \<Rightarrow>
                    if a \<noteq> 0 \<and> (is_negative y \<noteq> (a < 0)) then y else x
                | _ \<Rightarrow> NaN))"

definition float_mod_int :: "pyfloat \<Rightarrow> int \<Rightarrow> py_error + pyfloat" where
  "float_mod_int x i = py_bind (float_of_int i) (\<lambda>fi. float_mod x fi)"

text \<open>
  \<open>float(s)\<close> for a string: white space at both ends, an optional sign, then
  \<open>inf\<close>, \<open>infinity\<close> or \<open>nan\<close> in any case, or a decimal literal with an optional
  fraction and an optional exponent; the value is the literal's, correctly rounded.
\<close>

definition lower_char :: "char \<Rightarrow> char" where
  "lower_char c =
     (if 65 \<le> (of_char c :: int) \<and> (of_char c :: int) \<le> 90
      then char_of ((of_char c :: int) + 32) else c)"

definition parse_exponent :: "string \<Rightarrow> int option" where
  "parse_exponent s =
     (case s of
        [] \<Rightarrow> Some 0
      | c # cs \<Rightarrow>
          if c = CHR ''e'' \<or> c = CHR ''E''
          then (let (neg, ds) = take_sign cs in
                if ds \<noteq> [] \<and> list_all is_decimal ds
                then Some (if neg then - digits_value ds else digits_value ds)
                else None)
          else None)"

definition parse_decimal :: "string \<Rightarrow> rat option" where
  "parse_decimal s =
     (let ip = takeWhile is_decimal s;
          r1 = dropWhile is_decimal s;
          (fp, r2) = (case r1 of
                        [] \<Rightarrow> ([], [])
                      | c # cs \<Rightarrow>
                          if c = CHR ''.''
                          then (takeWhile is_decimal cs, dropWhile is_decimal cs)
                          else ([], r1))
      in if ip = [] \<and> fp = [] then None
         else (case parse_exponent r2 of
                 None \<Rightarrow> None
               | Some ex \<Rightarrow>
                   Some (of_int (digits_value (ip @ fp)) * pow10 (ex - int (length fp)))))"

definition py_float :: "string \<Rightarrow> py_error + pyfloat" where
  "py_float s =
     (let t = strip_num s in
      if \<not> underscores_ok None t then Inl ValueError
      else
        let (neg, body) = take_sign (drop_underscores t);
            word = map lower_char body
        in if word = ''inf'' \<or> word = ''infinity'' then Inr (signed_inf neg)
           else if word = ''nan'' then Inr NaN
           else (case parse_decimal body of
                   None \<Rightarrow> Inl ValueError
                 | Some q \<Rightarrow> Inr (round_double (if neg then - q else q))))"

section \<open>Resolving an identifier to a file\<close>

text \<open>
  \<open>self.image_dir / name\<close> is kept as the pair of the directory and the name. The file
  system is the function \<open>exists\<close> on such paths, which stands for \<open>Path.exists()\<close>:
  it answers \<open>True\<close> or \<open>False\<close>, or it raises the \<open>OSError\<close> of the underlying
  \<open>stat\<close> call when that error is not one of those that mean an absent file (a name
  longer than the file system allows is such an error).
\<close>

datatype path = PathJoin string string

record IIIFImageServer =
  image_dir :: string

definition path_delimiters :: "string list" where
  "path_delimiters = [''..'', ''/'', [CHR 0x5C]]"

definition accepted_formats :: "string list" where
  "accepted_formats =
     [''.jpg'', ''.jpeg'', ''.png'', ''.tiff'', ''.tif'', ''.webp'', ''.jp2'', ''.pdf'']"

text \<open>
  The loop over the extensions: the first candidate that exists. A probe that raises
  ends the loop with its exception.
\<close>

fun first_existing ::
  "(path \<Rightarrow> py_error + bool) \<Rightarrow> string \<Rightarrow> string \<Rightarrow> string list \<Rightarrow> py_error + path option" where
  "first_existing exists dir identifier [] = Inr None"
| "first_existing exists dir identifier (ext # exts) =
     py_bind (exists (PathJoin dir (identifier @ ext))) (\<lambda>found.
       if found then Inr (Some (PathJoin dir (identifier @ ext)))
       else first_existing exists dir identifier exts)"

text \<open>
  \<open>find_image_file\<close>. An identifier with a path delimiter is refused before any probe.
  An identifier that ends in an accepted extension is probed as it is first; when that
  file is absent the loop over the extensions follows all the same.
\<close>

definition find_image_file ::
  "(path \<Rightarrow> py_error + bool) \<Rightarrow> IIIFImageServer \<Rightarrow> string \<Rightarrow> py_error + path option" where
  "find_image_file exists self identifier =
     (if list_ex (\<lambda>delimiter. contains delimiter identifier) path_delimiters then Inr None
      else py_bind
             (if list_ex (endswith identifier) accepted_formats
              then exists (PathJoin (image_dir self) identifier)
              else Inr False) (\<lambda>found.
             if found then Inr (Some (PathJoin (image_dir self) identifier))
             else first_existing exists (image_dir self) identifier accepted_formats))"

section \<open>Region and size grammar\<close>

text \<open>\<open>int(extent * pct / 100)\<close>: the product and the quotient are floats.\<close>

definition scale_pct :: "int \<Rightarrow> pyfloat \<Rightarrow> py_error + int" where
  "scale_pct extent pct =
     py_bind (int_mul_float extent pct) (\<lambda>p. py_bind (float_div_int p 100) int_of_float)"

text \<open>\<open>int(a * b / c)\<close> on three \<open>int\<close>s: an exact product, then a float quotient.\<close>

definition scale_ratio :: "int \<Rightarrow> int \<Rightarrow> int \<Rightarrow> py_error + int" where
  "scale_ratio a b c = py_bind (int_truediv (a * b) c) int_of_float"

definition parse_region :: "string \<Rightarrow> int \<Rightarrow> int \<Rightarrow> py_error + (int \<times> int \<times> int \<times> int)" where
  "parse_region region img_width img_height =
     (if region = ''full'' then Inr (0, 0, img_width, img_height)
      else if region = ''square'' then
        (if img_width = img_height then Inr (0, 0, img_width, img_height)
         else if img_width > img_height
         then Inr ((img_width - img_height) div 2, 0, img_height, img_height)
         else Inr (0, (img_height - img_width) div 2, img_width, img_width))
      else if startswith region ''pct:'' \<and> length (split_comma (drop 4 region)) = 4 then
        py_bind (map_err py_float (split_comma (drop 4 region))) (\<lambda>pct_values.
          case pct_values of
            [x_pct, y_pct, w_pct, h_pct] \<Rightarrow>
              py_bind (scale_pct img_width x_pct) (\<lambda>x.
              py_bind (scale_pct img_height y_pct) (\<lambda>y.
              py_bind (scale_pct img_width w_pct) (\<lambda>w.
              py_bind (scale_pct img_height h_pct) (\<lambda>h.
              Inr (x, y, w, h)))))
          | _ \<Rightarrow> Inl ValueError)
      else if length (split_comma region) = 4 then
        py_bind (map_err py_int (split_comma region)) (\<lambda>values.
          case values of
            [x0, y0, w0, h0] \<Rightarrow>
              (let x = max 0 (min x0 img_width);
                   y = max 0 (min y0 img_height);
                   w = min w0 (img_width - x);
                   h = min h0 (img_height - y)
               in Inr (x, y, w, h))
          | _ \<Rightarrow> Inl ValueError)
      else Inr (0, 0, img_width, img_height))"

text \<open>
  The end of \<open>parse_size\<close>, from the best-fit form on: it is reached when the token has
  no comma, or is the single comma. The token loses its leading \<open>!\<close> for the tests
  that follow.
\<close>

definition parse_size_rest :: "string \<Rightarrow> int \<Rightarrow> int \<Rightarrow> py_error + (int \<times> int)" where
  "parse_size_rest sz0 region_width region_height =
     (let bang = startswith sz0 ''!'';
          sz = (if bang then drop 1 sz0 else sz0)
      in if bang \<and> contains '','' sz then
           py_bind (map_err py_int (split_comma sz)) (\<lambda>maxes.
             case maxes of
               [max_w, max_h] \<Rightarrow>
                 py_bind (int_truediv max_w region_width) (\<lambda>scale_w.
                 py_bind (int_truediv max_h region_height) (\<lambda>scale_h.
                 let scale = float_min scale_w scale_h in
                 py_bind (py_bind (int_mul_float region_width scale) int_of_float) (\<lambda>w.
                 py_bind (py_bind (int_mul_float region_height scale) int_of_float) (\<lambda>h.
                 Inr (max 1 w, max 1 h)))))
             | _ \<Rightarrow> Inl ValueError)
         else if isdigit sz then
           py_bind (py_int sz) (\<lambda>w.
           py_bind (scale_ratio region_height w region_width) (\<lambda>h.
           Inr (w, max 1 h)))
         else Inr (region_width, region_height))"

function parse_size :: "string \<Rightarrow> int \<Rightarrow> int \<Rightarrow> py_error + (int \<times> int)" where
  "parse_size sz region_width region_height =
     (if sz = ''max'' then Inr (region_width, region_height)
      else if startswith sz ''^'' then parse_size (drop 1 sz) region_width region_height
      else if startswith sz ''pct:'' then
        py_bind (py_float (drop 4 sz)) (\<lambda>pct.
        py_bind (scale_pct region_width pct) (\<lambda>w.
        py_bind (scale_pct region_height pct) (\<lambda>h.
        Inr (max 1 w, max 1 h))))
      else if contains '','' sz then
        (case split_comma sz of
           [w_str, h_str] \<Rightarrow>
             if w_str \<noteq> [] \<and> h_str = [] then
               py_bind (py_int w_str) (\<lambda>w.
               py_bind (scale_ratio region_height w region_width) (\<lambda>h.
               Inr (w, max 1 h)))
             else if h_str \<noteq> [] \<and> w_str = [] then
               py_bind (py_int h_str) (\<lambda>h.
               py_bind (scale_ratio region_width h region_height) (\<lambda>w.
               Inr (max 1 w, h)))
             else if w_str \<noteq> [] \<and> h_str \<noteq> [] then
               py_bind (py_int w_str) (\<lambda>w.
               py_bind (py_int h_str) (\<lambda>h.
               Inr (w, h)))
             else parse_size_rest sz region_width region_height
         | _ \<Rightarrow> Inl ValueError)
      else parse_size_rest sz region_width region_height)"
  by pat_completeness auto
termination
proof (relation "measure (\<lambda>(sz, region_width, region_height). length sz)")
  show "wf (measure (\<lambda>(sz, region_width, region_height). length sz))"
    by simp
next
  fix sz :: string and region_width region_height :: int
  assume "startswith sz ''^''"
  then have "sz \<noteq> []"
    by (auto simp: startswith_def)
  then show "((drop 1 sz, region_width, region_height), (sz, region_width, region_height))
      \<in> measure (\<lambda>(sz, region_width, region_height). length sz)"
    by simp
qed

declare parse_size.simps [simp del]

section \<open>The raster library\<close>

text \<open>
  The pixel operations belong to OpenCV and NumPy, which are not part of the server.
  They are taken as a record of operations over an arbitrary raster type \<open>'img\<close>. An
  OpenCV call that fails raises \<open>cv2.error\<close>, which is the result \<open>None\<close> here;
  \<open>cv_imread\<close> returns \<open>None\<close> for a file that is not an image; slicing never fails.
  \<open>cv_shape\<close> is \<open>image.shape\<close>: height, width, and the channel count of a raster
  that has a third axis.
\<close>

datatype rotate_code = ROTATE_90_CLOCKWISE | ROTATE_180 | ROTATE_90_COUNTERCLOCKWISE

datatype encode_param =
  IMWRITE_JPEG_QUALITY int | IMWRITE_PNG_COMPRESSION int | IMWRITE_WEBP_QUALITY int

type_synonym matrix23 = "(pyfloat \<times> pyfloat \<times> pyfloat) \<times> (pyfloat \<times> pyfloat \<times> pyfloat)"

record 'img cv2 =
  cv_imread :: "path \<Rightarrow> 'img option"
  cv_shape :: "'img \<Rightarrow> int \<times> int \<times> int option"
  cv_slice :: "'img \<Rightarrow> int \<Rightarrow> int \<Rightarrow> int \<Rightarrow> int \<Rightarrow> 'img"
  cv_resize :: "'img \<Rightarrow> int \<times> int \<Rightarrow> 'img option"
  cv_flip :: "'img \<Rightarrow> int \<Rightarrow> 'img option"
  cv_rotate :: "'img \<Rightarrow> rotate_code \<Rightarrow> 'img option"
  cv_getRotationMatrix2D :: "int \<times> int \<Rightarrow> pyfloat \<Rightarrow> pyfloat \<Rightarrow> matrix23"
  cv_warpAffine :: "'img \<Rightarrow> matrix23 \<Rightarrow> int \<times> int \<Rightarrow> 'img option"
  cv_cvtColor_gray :: "'img \<Rightarrow> 'img option"
  cv_threshold :: "'img \<Rightarrow> 'img option"
  cv_imencode :: "string \<Rightarrow> 'img \<Rightarrow> encode_param list \<Rightarrow> (bool \<times> string) option"

definition cv_call :: "'a option \<Rightarrow> py_error + 'a" where
  "cv_call r = (case r of None \<Rightarrow> Inl CvError | Some v \<Rightarrow> Inr v)"

text \<open>\<open>try: body except ValueError: pass\<close>, continuing with the value held before.\<close>

definition catch_ValueError :: "py_error + 'a \<Rightarrow> 'a \<Rightarrow> py_error + 'a" where
  "catch_ValueError body kept =
     (case body of
        Inl e \<Rightarrow> if e = ValueError then Inr kept else Inl e
      | Inr v \<Rightarrow> Inr v)"

section \<open>Rotation, encoding and the request handler\<close>

text \<open>The branch of \<open>apply_rotation\<close> for an angle that is no multiple of 90.\<close>

definition rotate_arbitrary :: "'img cv2 \<Rightarrow> 'img \<Rightarrow> pyfloat \<Rightarrow> py_error + 'img" where
  "rotate_arbitrary cv img angle =
     (let (height, width, channels) = cv_shape cv img;
          center = (width div 2, height div 2);
          ((m00, m01, m02), (m10, m11, m12)) =
             cv_getRotationMatrix2D cv center (float_neg angle) (Finite 1);
          cos_angle = float_abs m00;
          sin_angle = float_abs m01
      in py_bind (int_mul_float height sin_angle) (\<lambda>hs.
         py_bind (int_mul_float width cos_angle) (\<lambda>wc.
         py_bind (int_of_float (float_add hs wc)) (\<lambda>new_width.
         py_bind (int_mul_float height cos_angle) (\<lambda>hc.
         py_bind (int_mul_float width sin_angle) (\<lambda>ws.
         py_bind (int_of_float (float_add hc ws)) (\<lambda>new_height.
         py_bind (int_truediv new_width 2) (\<lambda>half_width.
         py_bind (float_of_int (fst center)) (\<lambda>cx.
         py_bind (int_truediv new_height 2) (\<lambda>half_height.
         py_bind (float_of_int (snd center)) (\<lambda>cy.
         cv_call (cv_warpAffine cv img
           ((m00, m01, float_add m02 (float_sub half_width cx)),
            (m10, m11, float_add m12 (float_sub half_height cy)))
           (new_width, new_height)))))))))))))"

definition apply_rotation :: "'img cv2 \<Rightarrow> 'img \<Rightarrow> string \<Rightarrow> py_error + 'img" where
  "apply_rotation cv img0 rotation0 =
     (if rotation0 = ''0'' then Inr img0
      else
        let mirror = startswith rotation0 ''!'';
            rotation = (if mirror then drop 1 rotation0 else rotation0)
        in py_bind (if mirror then cv_call (cv_flip cv img0 1) else Inr img0) (\<lambda>img.
           catch_ValueError
             (py_bind (py_float rotation) (\<lambda>angle.
                if \<not> float_eq_int angle 0 then
                  py_bind (float_mod_int angle 90) (\<lambda>r90.
                    if float_eq_int r90 0 then
                      py_bind (float_mod_int angle 360) (\<lambda>a.
                        if float_eq_int a 90
                        then cv_call (cv_rotate cv img ROTATE_90_CLOCKWISE)
                        else if float_eq_int a 180
                        then cv_call (cv_rotate cv img ROTATE_180)
                        else if float_eq_int a 270
                        then cv_call (cv_rotate cv img ROTATE_90_COUNTERCLOCKWISE)
                        else Inr img)
                    else rotate_arbitrary cv img angle)
                else Inr img))
             img))"

text \<open>
  \<open>format.lower()\<close>, as far as a comparison with the lower-case ASCII names can tell.
\<close>

definition lower :: "string \<Rightarrow> string" where
  "lower s = map lower_char s"

definition encode_image :: "'img cv2 \<Rightarrow> 'img \<Rightarrow> string \<Rightarrow> string \<Rightarrow> py_error + string" where
  "encode_image cv img0 format quality =
     py_bind
       (if quality = ''color'' \<or> quality = ''default'' then Inr img0
        else if quality = ''gray'' then
          (if snd (snd (cv_shape cv img0)) \<noteq> None
           then cv_call (cv_cvtColor_gray cv img0) else Inr img0)
        else if quality = ''bitonal'' then
          py_bind (if snd (snd (cv_shape cv img0)) \<noteq> None
                   then cv_call (cv_cvtColor_gray cv img0) else Inr img0)
            (\<lambda>gray. cv_call (cv_threshold cv gray))
        else Inr img0)
       (\<lambda>img.
          py_bind
            (let format_lower = lower format in
             if format_lower = ''jpg'' \<or> format_lower = ''jpeg''
             then cv_call (cv_imencode cv ''.jpg'' img [IMWRITE_JPEG_QUALITY 90])
             else if format_lower = ''png''
             then cv_call (cv_imencode cv ''.png'' img [IMWRITE_PNG_COMPRESSION 6])
             else if format_lower = ''webp''
             then cv_call (cv_imencode cv ''.webp'' img [IMWRITE_WEBP_QUALITY 90])
             else if format_lower = ''tif'' \<or> format_lower = ''tiff''
             then cv_call (cv_imencode cv ''.tiff'' img [])
             else cv_call (cv_imencode cv ''.jpg'' img [IMWRITE_JPEG_QUALITY 90]))
            (\<lambda>(success, buffer). if \<not> success then Inl ValueError else Inr buffer))"

text \<open>
  The two geometric stages of \<open>get_image\<close> that consult the grammar. Cropping is the
  slice \<open>image[y:y+h, x:x+w]\<close>, taken only when the parsed width and height are
  positive; scaling calls \<open>cv2.resize\<close> whenever the parsed size differs from the
  raster's.
\<close>

definition crop_stage :: "'img cv2 \<Rightarrow> string \<Rightarrow> 'img \<Rightarrow> py_error + 'img" where
  "crop_stage cv region img =
     (let (original_height, original_width, channels) = cv_shape cv img in
      py_bind (parse_region region original_width original_height) (\<lambda>(x, y, w, h).
        if w > 0 \<and> h > 0 then Inr (cv_slice cv img y (y + h) x (x + w))
        else Inr img))"

definition scale_stage :: "'img cv2 \<Rightarrow> string \<Rightarrow> 'img \<Rightarrow> py_error + 'img" where
  "scale_stage cv sz img =
     (let (current_height, current_width, channels) = cv_shape cv img in
      py_bind (parse_size sz current_width current_height) (\<lambda>(new_width, new_height).
        if new_width \<noteq> current_width \<or> new_height \<noteq> current_height
        then cv_call (cv_resize cv img (new_width, new_height))
        else Inr img))"

definition content_type :: "string \<Rightarrow> string" where
  "content_type format =
     (let f = lower format in
      if f = ''jpg'' \<or> f = ''jpeg'' then ''image/jpeg''
      else if f = ''png'' then ''image/png''
      else if f = ''webp'' then ''image/webp''
      else if f = ''tif'' \<or> f = ''tiff'' then ''image/tiff''
      else ''image/jpeg'')"

text \<open>
  A response is the image with its media type, a JSON error with its status, or the
  answer 500 of the handler's \<open>except Exception\<close>, which carries the exception.
  The response headers are constant and left out. The identifier is resolved before
  the \<open>try\<close> block, so an exception of \<open>find_image_file\<close> is not caught by the handler:
  \<open>Uncaught\<close> is the exception leaving \<open>get_image\<close>.
\<close>

datatype response =
  Response string string
| JSONResponse string string nat
| InternalServerError py_error
| Uncaught py_error

definition get_image ::
  "'img cv2 \<Rightarrow> (path \<Rightarrow> py_error + bool) \<Rightarrow> IIIFImageServer \<Rightarrow>
   string \<Rightarrow> string \<Rightarrow> string \<Rightarrow> string \<Rightarrow> string \<Rightarrow> string \<Rightarrow> response" where
  "get_image cv exists server identifier region sz rotation quality format =
     (case find_image_file exists server identifier of
        Inl e \<Rightarrow> Uncaught e
      | Inr None \<Rightarrow> JSONResponse ''BadRequest'' ''Image not found'' 404
      | Inr (Some image_path) \<Rightarrow>
          (case cv_imread cv image_path of
             None \<Rightarrow> JSONResponse ''BadRequest'' ''Invalid image file'' 400
           | Some img \<Rightarrow>
               (case py_bind (crop_stage cv region img) (\<lambda>cropped.
                     py_bind (scale_stage cv sz cropped) (\<lambda>scaled.
                     py_bind (apply_rotation cv scaled rotation) (\<lambda>rotated.
                     encode_image cv rotated format quality))) of
                  Inl e \<Rightarrow> InternalServerError e
                | Inr image_bytes \<Rightarrow> Response image_bytes (content_type format))))"

subsection \<open>A raster library that keeps shapes only\<close>

text \<open>
  For evaluating the handler on concrete requests: a raster is its shape. Slicing
  follows NumPy (a negative bound counts from the end, bounds are clamped, an empty
  range has length 0). \<open>resize\<close> fails on a target width or height that is not positive,
  as \<open>cv2.resize\<close> does; as a simplification every call of this library refuses an empty
  raster. Trigonometry is not computed: the rotation matrix of this library is NaN
  throughout, so it says nothing about rotations by other angles than multiples of 90.
\<close>

type_synonym shape_img = "int \<times> int \<times> int option"

definition slice_bound :: "int \<Rightarrow> int \<Rightarrow> int" where
  "slice_bound n i = (if i < 0 then max 0 (n + i) else min i n)"

definition slice_len :: "int \<Rightarrow> int \<Rightarrow> int \<Rightarrow> int" where
  "slice_len n a b = max 0 (slice_bound n b - slice_bound n a)"

definition is_empty_img :: "shape_img \<Rightarrow> bool" where
  "is_empty_img img = (fst img \<le> 0 \<or> fst (snd img) \<le> 0)"

definition shape_cv :: "shape_img \<Rightarrow> shape_img cv2" where
  "shape_cv stored =
     \<lparr> cv_imread = (\<lambda>p. Some stored),
       cv_shape = (\<lambda>img. img),
       cv_slice = (\<lambda>(h, w, c) y0 y1 x0 x1. (slice_len h y0 y1, slice_len w x0 x1, c)),
       cv_resize = (\<lambda>(h, w, c) (new_w, new_h).
          if is_empty_img (h, w, c) \<or> new_w \<le> 0 \<or> new_h \<le> 0 then None
          else Some (new_h, new_w, c)),
       cv_flip = (\<lambda>img code. if is_empty_img img then None else Some img),
       cv_rotate = (\<lambda>(h, w, c) code.
          if is_empty_img (h, w, c) then None
          else if code = ROTATE_180 then Some (h, w, c) else Some (w, h, c)),
       cv_getRotationMatrix2D = (\<lambda>center angle scale. ((NaN, NaN, NaN), (NaN, NaN, NaN))),
       cv_warpAffine = (\<lambda>(h, w, c) m (new_w, new_h).
          if is_empty_img (h, w, c) \<or> new_w \<le> 0 \<or> new_h \<le> 0 then None
          else Some (new_h, new_w, c)),
       cv_cvtColor_gray = (\<lambda>(h, w, c). if is_empty_img (h, w, c) then None else Some (h, w, None)),
       cv_threshold = (\<lambda>img. if is_empty_img img then None else Some img),
       cv_imencode = (\<lambda>ext img params. if is_empty_img img then None else Some (True, ext)) \<rparr>"

subsection \<open>A directory without files\<close>



section \<open>Properties of the region grammar\<close>

text \<open>
  Claim C6. For every source width and height greater than 0, the token \<open>square\<close>
  gives a square region whose side is the smaller of the two: the full extent when the
  source is square, shifted by half the difference (floor division) along the x axis
  when the source is wider than tall, and along the y axis when it is taller than wide.
\<close>

theorem parse_region_square:
  assumes "0 < w" and "0 < h"
  shows "parse_region ''square'' w h =
           Inr (if h < w then (w - h) div 2 else 0,
                if w < h then (h - w) div 2 else 0,
                min w h, min w h)
         \<and> (w = h \<longrightarrow> parse_region ''square'' w h = Inr (0, 0, w, h))
         \<and> (h < w \<longrightarrow> parse_region ''square'' w h = Inr ((w - h) div 2, 0, h, h))
         \<and> (w < h \<longrightarrow> parse_region ''square'' w h = Inr (0, (h - w) div 2, w, w))"
  using assms by (simp add: parse_region_def)

theorem parse_region_square_witness:
  "(0::int) < 400 \<and> (0::int) < 200
   \<and> parse_region ''square'' 400 200 = Inr (100, 0, 200, 200)"
  using parse_region_square [of 400 200] by simp

section \<open>Properties of the size grammar\<close>

text \<open>
  Claim C10. \<open>parse_size\<close> terminates on every token and every pair of dimensions:
  every argument is in the domain of the recursion, and the only recursive call a call
  on \<open>sz\<close> can make is the call on \<open>sz\<close> without its first character, made when
  \<open>sz\<close> starts with \<open>^\<close>, so that the token gets shorter at each call. (The length of
  the token is the measure that defines \<open>parse_size\<close> above.)
\<close>

theorem parse_size_terminates:
  "parse_size_dom (sz, rw, rh)
   \<and> (\<forall>a. parse_size_rel a (sz, rw, rh) \<longrightarrow>
          a = (drop 1 sz, rw, rh) \<and> startswith sz ''^'' \<and> length (drop 1 sz) < length sz)"
proof -
  have only: "a = (drop 1 sz, rw, rh) \<and> sz \<noteq> ''max'' \<and> startswith sz ''^''
      \<and> length (drop 1 sz) < length sz"
    if "parse_size_rel a (sz, rw, rh)" for a sz rw rh
    using that
  proof (rule parse_size_rel.cases)
    fix sz' :: string and rw' rh' :: int
    assume eqs: "a = (drop 1 sz', rw', rh')" "(sz, rw, rh) = (sz', rw', rh')"
      and nomax: "sz' \<noteq> ''max''" and hat: "startswith sz' ''^''"
    from hat have "sz' \<noteq> []"
      by (auto simp: startswith_def)
    with eqs nomax hat show ?thesis
      by simp
  qed
  have "parse_size_dom (sz, rw, rh)"
  proof (induction sz rw rh rule: parse_size.induct)
    case (1 sz rw rh)
    show ?case
    proof (rule accpI)
      fix y
      assume "parse_size_rel y (sz, rw, rh)"
      then have "y = (drop 1 sz, rw, rh)" "sz \<noteq> ''max''" "startswith sz ''^''"
        using only by blast+
      with 1 show "parse_size_dom y"
        by simp
    qed
  qed
  with only show ?thesis
    by blast
qed

theorem parse_size_terminates_witness:
  "parse_size_rel (drop 1 ''^max'', 100, 50) (''^max'', 100, 50)
   \<and> parse_size_dom (''^max'', 100, 50)
   \<and> startswith ''^max'' ''^''
   \<and> length (drop 1 ''^max'') < length ''^max''"
proof -
  have r: "parse_size_rel (drop 1 ''^max'', 100, 50) (''^max'', 100, 50)"
    by (rule parse_size_rel.intros) (simp_all add: startswith_def)
  with parse_size_terminates [of "''^max''" 100 50] show ?thesis
    by simp
qed

text \<open>
  A token that starts with \<open>!\<close> and contains a comma never reaches the best-fit
  computation of \<open>parse_size_rest\<close>: its first field starts with \<open>!\<close>, which \<open>int\<close>
  rejects.
\<close>

lemma py_int_bang: "py_int (CHR ''!'' # s) = Inl ValueError"
proof -
  have nospace: "\<not> is_num_space CHR ''!''"
    by (simp add: is_num_space_def)
  then have "dropWhile is_num_space (rev s @ [CHR ''!''])
      = dropWhile is_num_space (rev s) @ [CHR ''!'']"
    by (simp add: dropWhile_append3)
  with nospace have "strip_num (CHR ''!'' # s)
      = CHR ''!'' # rev (dropWhile is_num_space (rev s))"
    by (simp add: strip_num_def)
  then show ?thesis
    by (simp add: py_int_def take_sign_def drop_underscores_def is_decimal_def)
qed
lemma split_comma_bang:
  "\<exists>p ps. split_comma (CHR ''!'' # s) = (CHR ''!'' # p) # ps"
  by (cases "split_comma s") simp_all
lemma best_fit_branch_unreachable:
  assumes "startswith sz ''!''" and "contains '','' sz"
  shows "parse_size sz rw rh = Inl ValueError"
proof -
  from assms(1) obtain s where sz: "sz = CHR ''!'' # s"
    by (cases sz) (auto simp: startswith_def)
  obtain p ps where fields: "split_comma sz = (CHR ''!'' # p) # ps"
    using split_comma_bang [of s] sz by blast
  have "parse_size sz rw rh =
      (case split_comma sz of
           [w_str, h_str] \<Rightarrow>
             if w_str \<noteq> [] \<and> h_str = [] then
               py_bind (py_int w_str) (\<lambda>w.
               py_bind (scale_ratio rh w rw) (\<lambda>h.
               Inr (w, max 1 h)))
             else if h_str \<noteq> [] \<and> w_str = [] then
               py_bind (py_int h_str) (\<lambda>h.
               py_bind (scale_ratio rw h rh) (\<lambda>w.
               Inr (max 1 w, h)))
             else if w_str \<noteq> [] \<and> h_str \<noteq> [] then
               py_bind (py_int w_str) (\<lambda>w.
               py_bind (py_int h_str) (\<lambda>h.
               Inr (w, h)))
             else parse_size_rest sz rw rh
         | _ \<Rightarrow> Inl ValueError)"
    using assms(2) unfolding sz
    by (subst parse_size.simps) (simp add: startswith_def)
  also have "\<dots> = Inl ValueError"
    unfolding fields by (simp add: py_int_bang py_bind_def split: list.splits)
  finally show ?thesis .
qed

text \<open>
  Claim C1 (the code departs from it). A best-fit token \<open>!maxW,maxH\<close> contains a
  comma, so \<open>parse_size\<close> takes the branch for \<open>w,h\<close> tokens first and converts the
  field \<open>!maxW\<close> with \<open>int\<close>, which raises: the best-fit computation further down is
  never reached (\<open>best_fit_branch_unreachable\<close>). The two examples of the claim raise
  ValueError.
\<close>

theorem parse_size_best_fit_raises:
  "parse_size ''!100,50'' 200 100 = Inl ValueError
   \<and> parse_size ''!100,50'' 200 200 = Inl ValueError"
  by code_simp

text \<open>
  Claim C2 (the code departs from it). Only \<open>apply_rotation\<close> guards its conversion:
  a region or size token of the right shape whose fields are not numbers makes
  \<open>parse_region\<close> and \<open>parse_size\<close> raise ValueError, and so does a size token with two
  commas.
\<close>

theorem parsers_raise_on_malformed_tokens:
  "parse_region ''a,b,c,d'' 100 100 = Inl ValueError
   \<and> parse_region ''pct:a,b,c,d'' 100 100 = Inl ValueError
   \<and> parse_size ''pct:x'' 100 100 = Inl ValueError
   \<and> parse_size ''a,b'' 100 100 = Inl ValueError
   \<and> parse_size ''1,2,3'' 100 100 = Inl ValueError"
  by code_simp

section \<open>Properties of the rotation and of the pipeline\<close>

lemma py_float_90: "py_float ''90'' = Inr (Finite 90)"
  by code_simp

lemma py_float_0: "py_float ''0'' = Inr (Finite 0)"
  by code_simp

lemma float_mod_90_90: "float_mod_int (Finite 90) 90 = Inr (Finite 0)"
  by code_simp

lemma float_mod_90_360: "float_mod_int (Finite 90) 360 = Inr (Finite 90)"
  by code_simp

text \<open>
  Claim C9. For every raster library and every raster: the token \<open>0\<close> returns the
  raster itself; the token \<open>90\<close> makes exactly one call, the quarter turn
  \<open>cv2.rotate(image, ROTATE_90_CLOCKWISE)\<close>, and returns its result (no interpolating
  call is made); the token \<open>!0\<close> makes exactly one call, the horizontal flip
  \<open>cv2.flip(image, 1)\<close>, and no rotation.
\<close>

theorem apply_rotation_basic:
  "apply_rotation cv img ''0'' = Inr img
   \<and> apply_rotation cv img ''90'' = cv_call (cv_rotate cv img ROTATE_90_CLOCKWISE)
   \<and> apply_rotation cv img ''!0'' = cv_call (cv_flip cv img 1)"
  by (simp add: apply_rotation_def startswith_def py_float_90 py_float_0 float_mod_90_90
      float_mod_90_360 py_bind_def float_eq_int_def catch_ValueError_def cv_call_def
      split: option.splits)

theorem apply_rotation_basic_witness:
  "apply_rotation (shape_cv (2, 3, None)) (2, 3, None) ''0'' = Inr (2, 3, None)
   \<and> apply_rotation (shape_cv (2, 3, None)) (2, 3, None) ''90'' = Inr (3, 2, None)
   \<and> apply_rotation (shape_cv (2, 3, None)) (2, 3, None) ''!0'' = Inr (2, 3, None)"
  using apply_rotation_basic [of "shape_cv (2, 3, None)" "(2, 3, None)"]
  by (simp add: shape_cv_def cv_call_def is_empty_img_def)

text \<open>
  Claim C4 (the code departs from it). Only the crop is guarded against a degenerate
  result. The scale stage calls \<open>cv2.resize\<close> whenever the parsed size differs from
  the raster's, also when the parsed width is 0: for the size token \<open>0,5\<close> on a 100 by
  100 raster the call is made with the target \<open>(0, 5)\<close>, OpenCV fails, and the request
  is answered with status 500 instead of carrying the raster forward.
\<close>

theorem scale_stage_calls_resize_with_zero_width:
  "scale_stage (shape_cv (100, 100, Some 3)) ''0,5'' (100, 100, Some 3) =
     cv_call (cv_resize (shape_cv (100, 100, Some 3)) (100, 100, Some 3) (0, 5))
   \<and> scale_stage (shape_cv (100, 100, Some 3)) ''0,5'' (100, 100, Some 3) = Inl CvError
   \<and> get_image (shape_cv (100, 100, Some 3)) (\<lambda>p. Inr True) \<lparr>image_dir = ''/testimages/''\<rparr>
       ''page1'' ''full'' ''0,5'' ''0'' ''default'' ''jpg'' = InternalServerError CvError"
  by code_simp

theorem scale_stage_calls_resize_with_zero_width_witness:
  "cv_call (cv_resize (shape_cv (100, 100, Some 3)) (100, 100, Some 3) (0, 5)) = Inl CvError
   \<and> get_image (shape_cv (100, 100, Some 3)) (\<lambda>p. Inr True) \<lparr>image_dir = ''/testimages/''\<rparr>
       ''page1'' ''full'' ''0,5'' ''0'' ''default'' ''jpg'' = InternalServerError CvError"
  using scale_stage_calls_resize_with_zero_width by metis

section \<open>Properties of the identifier resolution\<close>










section \<open>Absolute regions\<close>

text \<open>
  Claim C5, as the code has it. For a region token of exactly four comma-separated
  integers and a source of positive width \<open>W\<close> and height \<open>H\<close>, \<open>parse_region\<close> clamps
  x to \<open>[0, W]\<close> and y to \<open>[0, H]\<close> and then returns the width \<open>min w (W - x)\<close> and the
  height \<open>min h (H - y)\<close>. When the token's x is at least \<open>W\<close>, the width is
  \<open>min w 0\<close>: it is 0 for \<open>w \<ge> 0\<close> and it is \<open>w\<close> itself for a negative \<open>w\<close>; in
  both cases it is not positive and the handler leaves the raster uncropped.
\<close>

theorem parse_region_absolute:
  assumes "0 < W" and "0 < H" and "\<not> startswith region ''pct:''"
    and "split_comma region = [sx, sy, sw, sh]"
    and "py_int sx = Inr x" and "py_int sy = Inr y"
    and "py_int sw = Inr w" and "py_int sh = Inr h"
  shows "parse_region region W H =
           Inr (max 0 (min x W), max 0 (min y H),
                min w (W - max 0 (min x W)), min h (H - max 0 (min y H)))
         \<and> (W \<le> x \<longrightarrow>
              parse_region region W H =
                Inr (W, max 0 (min y H), min w 0, min h (H - max 0 (min y H)))
              \<and> min w 0 \<le> 0
              \<and> (0 \<le> w \<longrightarrow> min w 0 = 0)
              \<and> (cv_shape cv img = (H, W, ch) \<longrightarrow> crop_stage cv region img = Inr img))"
proof -
  have "region \<noteq> ''full''" "region \<noteq> ''square''"
    using assms(4) by auto
  moreover have "map_err py_int [sx, sy, sw, sh] = Inr [x, y, w, h]"
    using assms by (simp add: py_bind_def)
  ultimately have main: "parse_region region W H =
           Inr (max 0 (min x W), max 0 (min y H),
                min w (W - max 0 (min x W)), min h (H - max 0 (min y H)))"
    using assms(3,4) by (simp add: parse_region_def py_bind_def Let_def)
  have far: "max 0 (min x W) = W" if "W \<le> x"
    using that assms(1) by simp
  show ?thesis
    using main far by (simp add: crop_stage_def py_bind_def)
qed

theorem parse_region_absolute_witness:
  "parse_region ''150,0,50,10'' 100 100 = Inr (100, 0, 0, 10)
   \<and> crop_stage (shape_cv (100, 100, None)) ''150,0,50,10'' (100, 100, None)
       = Inr (100, 100, None)"
proof -
  have fields: "split_comma ''150,0,50,10'' = [''150'', ''0'', ''50'', ''10'']"
    by code_simp
  have pct: "\<not> startswith ''150,0,50,10'' ''pct:''"
    by code_simp
  have ints: "py_int ''150'' = Inr 150" "py_int ''0'' = Inr 0"
      "py_int ''50'' = Inr 50" "py_int ''10'' = Inr 10"
    by code_simp+
  have pos: "(0::int) < 100"
    by simp
  from parse_region_absolute [OF pos pos pct fields ints,
      where cv = "shape_cv (100, 100, None)" and img = "(100, 100, None)" and ch = None]
  show ?thesis
    by (simp add: shape_cv_def)
qed

theorem parse_region_absolute_counterexample:
  "parse_region ''100,0,-5,10'' 100 100 = Inr (100, 0, - 5, 10)
   \<and> (100::int) \<le> 100 \<and> (- 5::int) \<noteq> 0"
proof -
  have "parse_region ''100,0,-5,10'' 100 100 = Inr (100, 0, - 5, 10)"
    by code_simp
  then show ?thesis
    by simp
qed

section \<open>Percentage regions\<close>

text \<open>
  The coordinate as the specification words it: the floor of
  \<open>pctValue / 100 * sourceDimension\<close>, computed exactly.
\<close>

definition spec_pct_coord :: "rat \<Rightarrow> int \<Rightarrow> int" where
  "spec_pct_coord pct_value source_dimension =
     \<lfloor>pct_value / 100 * of_int source_dimension\<rfloor>"

lemma scale_pct_eq:
  "py_bind (int_mul_float e p) (\<lambda>v. float_div_int v 100) = Inr (Finite q)
   \<Longrightarrow> scale_pct e p = Inr (trunc_rat q)"
  by (auto simp: scale_pct_def py_bind_def int_of_float_def split: sum.splits)

text \<open>
  Claim C7, as the code has it. For a token \<open>pct:x,y,w,h\<close> of four floats,
  \<open>parse_region\<close> computes each coordinate as the float
  \<open>sourceDimension * pct / 100\<close> (x and w with the width, y and h with the height),
  and, when these four values are finite, returns them converted by \<open>int\<close>, which
  truncates toward zero: the floor of a value that is not negative, the ceiling of a
  negative one. Nothing is clamped to the source.
\<close>

theorem parse_region_pct:
  assumes "startswith region ''pct:''"
    and "split_comma (drop 4 region) = [sx, sy, sw, sh]"
    and "py_float sx = Inr px" and "py_float sy = Inr py"
    and "py_float sw = Inr pw" and "py_float sh = Inr ph"
    and "py_bind (int_mul_float W px) (\<lambda>v. float_div_int v 100) = Inr (Finite qx)"
    and "py_bind (int_mul_float H py) (\<lambda>v. float_div_int v 100) = Inr (Finite qy)"
    and "py_bind (int_mul_float W pw) (\<lambda>v. float_div_int v 100) = Inr (Finite qw)"
    and "py_bind (int_mul_float H ph) (\<lambda>v. float_div_int v 100) = Inr (Finite qh)"
  shows "parse_region region W H =
           Inr (trunc_rat qx, trunc_rat qy, trunc_rat qw, trunc_rat qh)
         \<and> (\<forall>q. trunc_rat q = (if 0 \<le> q then \<lfloor>q\<rfloor> else \<lceil>q\<rceil>))"
proof -
  have "region \<noteq> ''full''" "region \<noteq> ''square''"
    using assms(1) by (auto simp: startswith_def)
  moreover have "map_err py_float [sx, sy, sw, sh] = Inr [px, py, pw, ph]"
    using assms by (simp add: py_bind_def)
  moreover note scale_pct_eq [OF assms(7)] scale_pct_eq [OF assms(8)]
    scale_pct_eq [OF assms(9)] scale_pct_eq [OF assms(10)]
  ultimately show ?thesis
    using assms(1,2) by (simp add: parse_region_def py_bind_def trunc_rat_def)
qed

theorem parse_region_pct_witness:
  "parse_region ''pct:-0.5,50,100,100'' 100 200 = Inr (0, 100, 100, 200)"
proof -
  have pct: "startswith ''pct:-0.5,50,100,100'' ''pct:''"
    by code_simp
  have fields: "split_comma (drop 4 ''pct:-0.5,50,100,100'')
      = [''-0.5'', ''50'', ''100'', ''100'']"
    by code_simp
  have floats: "py_float ''-0.5'' = Inr (Finite (- 1 / 2))"
      "py_float ''50'' = Inr (Finite 50)" "py_float ''100'' = Inr (Finite 100)"
    by code_simp+
  have products:
    "py_bind (int_mul_float 100 (Finite (- 1 / 2))) (\<lambda>v. float_div_int v 100)
       = Inr (Finite (- 1 / 2))"
    "py_bind (int_mul_float 200 (Finite 50)) (\<lambda>v. float_div_int v 100) = Inr (Finite 100)"
    "py_bind (int_mul_float 100 (Finite 100)) (\<lambda>v. float_div_int v 100) = Inr (Finite 100)"
    "py_bind (int_mul_float 200 (Finite 100)) (\<lambda>v. float_div_int v 100) = Inr (Finite 200)"
    by code_simp+
  have truncated: "trunc_rat (- 1 / 2) = 0" "trunc_rat 100 = 100" "trunc_rat 200 = 200"
    by code_simp+
  from parse_region_pct
    [OF pct fields floats(1) floats(2) floats(3) floats(3) products] truncated
  show ?thesis
    by simp
qed

theorem parse_region_pct_counterexample:
  "py_float ''-0.5'' = Inr (Finite (- 1 / 2))
   \<and> parse_region ''pct:-0.5,0,50,50'' 100 100 = Inr (0, 0, 50, 50)
   \<and> spec_pct_coord (- 1 / 2) 100 = - 1"
proof -
  have "py_float ''-0.5'' = Inr (Finite (- 1 / 2))"
    by code_simp
  moreover have "parse_region ''pct:-0.5,0,50,50'' 100 100 = Inr (0, 0, 50, 50)"
    by code_simp
  moreover have "spec_pct_coord (- 1 / 2) 100 = - 1"
    by code_simp
  ultimately show ?thesis
    by simp
qed

section \<open>Lower bound of the parsed size\<close>

lemma py_bindE:
  assumes "py_bind m f = Inr r"
  obtains v where "m = Inr v" and "f v = Inr r"
  using assms by (cases m) (simp_all add: py_bind_def)
lemma contains_refl: "contains s s"
  by (cases s) (simp_all add: startswith_def)
lemma contains_drop1: "contains s (drop 1 t) \<Longrightarrow> contains s t"
  by (cases t) simp_all
lemma split_comma_nonempty: "split_comma s \<noteq> []"
  by (induction s) (auto split: list.splits)
lemma split_comma_head: "split_comma s = p # ps \<Longrightarrow> startswith s p"
proof (induction s arbitrary: p ps)
  case Nil
  then show ?case by (simp add: startswith_def)
next
  case (Cons c cs)
  show ?case
  proof (cases "c = CHR '',''")
    case True
    with Cons.prems show ?thesis by (simp add: startswith_def)
  next
    case False
    obtain q qs where q: "split_comma cs = q # qs"
      using split_comma_nonempty [of cs] by (cases "split_comma cs") auto
    with False Cons.prems have "p = c # q" by simp
    moreover from Cons.IH [OF q] have "startswith cs q" .
    ultimately show ?thesis by (simp add: startswith_def)
  qed
qed
lemma contains_field: "f \<in> set (split_comma s) \<Longrightarrow> contains f s"
proof (induction s arbitrary: f)
  case Nil
  then show ?case by simp
next
  case (Cons c cs)
  show ?case
  proof (cases "c = CHR '',''")
    case True
    with Cons.prems have "f = [] \<or> f \<in> set (split_comma cs)" by simp
    then show ?thesis
    proof
      assume "f = []"
      then show ?thesis by (simp add: startswith_def)
    next
      assume "f \<in> set (split_comma cs)"
      then show ?thesis using Cons.IH by simp
    qed
  next
    case False
    obtain q qs where q: "split_comma cs = q # qs"
      using split_comma_nonempty [of cs] by (cases "split_comma cs") auto
    with False Cons.prems have "f = c # q \<or> f \<in> set qs" by simp
    then show ?thesis
    proof
      assume "f = c # q"
      moreover from split_comma_head [OF q] have "startswith cs q" .
      ultimately show ?thesis by (simp add: startswith_def)
    next
      assume "f \<in> set qs"
      with q have "f \<in> set (split_comma cs)" by simp
      then show ?thesis using Cons.IH by simp
    qed
  qed
qed
lemma parse_size_rest_dims:
  assumes "parse_size_rest sz rw rh = Inr (w, h)" and "0 < rw" and "0 < rh"
  shows "(1 \<le> w \<or> (\<exists>s. contains s sz \<and> py_int s = Inr w)) \<and> 1 \<le> h"
proof -
  define bang where "bang = startswith sz ''!''"
  define sz' where "sz' = (if bang then drop 1 sz else sz)"
  have sub: "contains sz' sz"
    unfolding sz'_def using contains_refl contains_drop1 by simp
  consider (fit) "bang \<and> contains '','' sz'" | (digit) "\<not> (bang \<and> contains '','' sz')" "isdigit sz'"
    | (other) "\<not> (bang \<and> contains '','' sz')" "\<not> isdigit sz'"
    by blast
  then show ?thesis
  proof cases
    case fit
    with assms(1) have "1 \<le> w \<and> 1 \<le> h"
      unfolding parse_size_rest_def Let_def bang_def [symmetric] sz'_def [symmetric]
      by (auto elim!: py_bindE split: list.splits)
    then show ?thesis by simp
  next
    case digit
    with assms(1) have "py_int sz' = Inr w \<and> 1 \<le> h"
      unfolding parse_size_rest_def Let_def bang_def [symmetric] sz'_def [symmetric]
      by (auto elim!: py_bindE)
    with sub show ?thesis by blast
  next
    case other
    with assms show ?thesis
      unfolding parse_size_rest_def Let_def bang_def [symmetric] sz'_def [symmetric]
      by auto
  qed
qed

text \<open>
  Claim C3, as the code has it. For every size token and every region width and height
  greater than 0, each of the two numbers that \<open>parse_size\<close> returns is at least 1
  or is an integer written in the token itself: the dimensions that \<open>parse_size\<close>
  computes are raised to 1, the dimensions that the token gives are returned as written.
\<close>

theorem parse_size_dims:
  assumes "parse_size sz rw rh = Inr (w, h)" and "0 < rw" and "0 < rh"
  shows "(1 \<le> w \<or> (\<exists>s. contains s sz \<and> py_int s = Inr w))
         \<and> (1 \<le> h \<or> (\<exists>s. contains s sz \<and> py_int s = Inr h))"
  using assms
proof (induction sz rw rh arbitrary: w h rule: parse_size.induct)
  case (1 sz rw rh)
  note result = \<open>parse_size sz rw rh = Inr (w, h)\<close>
  consider (max) "sz = ''max''"
    | (hat) "sz \<noteq> ''max''" "startswith sz ''^''"
    | (pct) "sz \<noteq> ''max''" "\<not> startswith sz ''^''" "startswith sz ''pct:''"
    | (comma) "sz \<noteq> ''max''" "\<not> startswith sz ''^''" "\<not> startswith sz ''pct:''"
        "contains '','' sz"
    | (rest) "sz \<noteq> ''max''" "\<not> startswith sz ''^''" "\<not> startswith sz ''pct:''"
        "\<not> contains '','' sz"
    by blast
  then show ?case
  proof cases
    case max
    with result have "w = rw \<and> h = rh"
      by (simp add: parse_size.simps [of "''max''" rw rh])
    with "1.prems"(2,3) show ?thesis
      by simp
  next
    case hat
    with result have "parse_size (drop 1 sz) rw rh = Inr (w, h)"
      by (simp add: parse_size.simps [of sz rw rh])
    from "1.IH" [OF hat this "1.prems"(2,3)]
    show ?thesis
      using contains_drop1 by blast
  next
    case pct
    with result have "1 \<le> w \<and> 1 \<le> h"
      by (auto simp: parse_size.simps [of sz rw rh] elim!: py_bindE)
    then show ?thesis by simp
  next
    case comma
    with result have body: "(case split_comma sz of
           [w_str, h_str] \<Rightarrow>
             if w_str \<noteq> [] \<and> h_str = [] then
               py_bind (py_int w_str) (\<lambda>w.
               py_bind (scale_ratio rh w rw) (\<lambda>h.
               Inr (w, max 1 h)))
             else if h_str \<noteq> [] \<and> w_str = [] then
               py_bind (py_int h_str) (\<lambda>h.
               py_bind (scale_ratio rw h rh) (\<lambda>w.
               Inr (max 1 w, h)))
             else if w_str \<noteq> [] \<and> h_str \<noteq> [] then
               py_bind (py_int w_str) (\<lambda>w.
               py_bind (py_int h_str) (\<lambda>h.
               Inr (w, h)))
             else parse_size_rest sz rw rh
         | _ \<Rightarrow> Inl ValueError) = Inr (w, h)"
      by (simp add: parse_size.simps [of sz rw rh])
    then obtain ws hs where fields: "split_comma sz = [ws, hs]"
      by (auto split: list.splits)
    then have sub: "contains ws sz" "contains hs sz"
      using contains_field [of ws sz] contains_field [of hs sz] by simp_all
    consider (width) "ws \<noteq> []" "hs = []" | (height) "hs \<noteq> []" "ws = []"
      | (both) "ws \<noteq> []" "hs \<noteq> []" | (neither) "ws = []" "hs = []"
      by blast
    then show ?thesis
    proof cases
      case width
      with body fields have "py_int ws = Inr w \<and> 1 \<le> h"
        by (auto elim!: py_bindE)
      with sub show ?thesis by blast
    next
      case height
      with body fields have "py_int hs = Inr h \<and> 1 \<le> w"
        by (auto elim!: py_bindE)
      with sub show ?thesis by blast
    next
      case both
      with body fields have "py_int ws = Inr w \<and> py_int hs = Inr h"
        by (auto elim!: py_bindE)
      with sub show ?thesis by blast
    next
      case neither
      with body fields have "parse_size_rest sz rw rh = Inr (w, h)"
        by simp
      from parse_size_rest_dims [OF this "1.prems"(2,3)] show ?thesis
        by blast
    qed
  next
    case rest
    with result have "parse_size_rest sz rw rh = Inr (w, h)"
      by (simp add: parse_size.simps [of sz rw rh])
    from parse_size_rest_dims [OF this "1.prems"(2,3)] show ?thesis
      by blast
  qed
qed

theorem parse_size_dims_witness:
  "parse_size ''0,5'' 100 100 = Inr (0, 5)
   \<and> (\<exists>s. contains s ''0,5'' \<and> py_int s = Inr 0)"
proof -
  have r: "parse_size ''0,5'' 100 100 = Inr (0, 5)"
    by code_simp
  from parse_size_dims [OF r] r show ?thesis
    by simp
qed

theorem parse_size_dims_counterexample:
  "parse_size ''0,5'' 100 100 = Inr (0, 5) \<and> \<not> (1::int) \<le> 0"
proof -
  have "parse_size ''0,5'' 100 100 = Inr (0, 5)"
    by code_simp
  then show ?thesis
    by simp
qed

end
